theory Spec2Isabelle
  imports
    Complex_Main
    "HOL-Library.Char_ord"
    "HOL-Library.List_Lexorder"
    "HOL-Library.Sublist"
begin

section \<open>Python values, exceptions and text\<close>

text \<open>
  The grading service (\<^verbatim>\<open>backend/services/grading_service.py\<close>) is Python. Every call
  that can raise is modelled as a value of \<open>exn + 'a\<close>: \<open>Inl e\<close> is the exception
  \<open>e\<close> propagating, \<open>Inr v\<close> is a normal return. The code only ever looks at
  \<^verbatim>\<open>str(e)\<close>, so an exception carries its class and its message.

  Text is \<open>string\<close>, a list of bytes: the Korean literals of the source are written as
  their UTF-8 bytes, and a column name or an SQL text is its UTF-8 encoding. Python's
  \<^verbatim>\<open>str.lower\<close> and \<^verbatim>\<open>str.strip\<close> are modelled on the ASCII range (letters A-Z;
  the whitespace bytes 09-0D, 1C-1F and 20); the non-ASCII letters and spaces that Python
  also knows are several bytes long here and are left alone.
\<close>

datatype exn =
    ValueError string
  | TypeError string
  | KeyError string
  | AttributeError string
  | OtherError string

fun str_exn :: "exn \<Rightarrow> string" where
  "str_exn (ValueError m) = m"
| "str_exn (TypeError m) = m"
| "str_exn (KeyError m) = m"
| "str_exn (AttributeError m) = m"
| "str_exn (OtherError m) = m"

definition digit_char :: "nat \<Rightarrow> char" where
  "digit_char d = char_of (48 + d)"

text \<open>\<^verbatim>\<open>str(n)\<close> for a length: the decimal digits.\<close>

fun str_nat :: "nat \<Rightarrow> string" where
  "str_nat n = (if n < 10 then [digit_char n] else str_nat (n div 10) @ [digit_char (n mod 10)])"

declare str_nat.simps [simp del]

definition lower_char :: "char \<Rightarrow> char" where
  "lower_char c =
     (if CHR ''A'' \<le> c \<and> c \<le> CHR ''Z'' then char_of (of_char c + (32::nat)) else c)"

definition lower :: "string \<Rightarrow> string" where
  "lower s = map lower_char s"

definition is_space :: "char \<Rightarrow> bool" where
  "is_space c =
     (let n = (of_char c :: nat) in (9 \<le> n \<and> n \<le> 13) \<or> (28 \<le> n \<and> n \<le> 32))"

text \<open>\<^verbatim>\<open>s.strip()\<close> drops the whitespace at both ends; \<^verbatim>\<open>s.rstrip(";")\<close> drops the
  semicolons at the right end.\<close>

definition lstrip :: "string \<Rightarrow> string" where
  "lstrip s = dropWhile is_space s"

definition rstrip :: "string \<Rightarrow> string" where
  "rstrip s = rev (dropWhile is_space (rev s))"

definition strip :: "string \<Rightarrow> string" where
  "strip s = rstrip (lstrip s)"

definition rstrip_semicolon :: "string \<Rightarrow> string" where
  "rstrip_semicolon s = rev (dropWhile (\<lambda>c. c = CHR '';'') (rev s))"

subsection \<open>The message literals of the source\<close>

definition msg_col_count :: string where
  "msg_col_count = [CHR 0xEC, CHR 0xBB, CHR 0xAC, CHR 0xEB, CHR 0x9F, CHR 0xBC] @ '' '' @ [CHR 0xEC, CHR 0x88, CHR 0x98, CHR 0xEA, CHR 0xB0, CHR 0x80] @ '' '' @ [CHR 0xEB, CHR 0x8B, CHR 0xA4, CHR 0xEB, CHR 0xA6, CHR 0x85, CHR 0xEB, CHR 0x8B, CHR 0x88, CHR 0xEB, CHR 0x8B, CHR 0xA4] @ ''. ('' @ [CHR 0xEC, CHR 0xA0, CHR 0x9C, CHR 0xEC, CHR 0xB6, CHR 0x9C] @ '': ''"

definition msg_row_count :: string where
  "msg_row_count = [CHR 0xED, CHR 0x96, CHR 0x89] @ '' '' @ [CHR 0xEC, CHR 0x88, CHR 0x98, CHR 0xEA, CHR 0xB0, CHR 0x80] @ '' '' @ [CHR 0xEB, CHR 0x8B, CHR 0xA4, CHR 0xEB, CHR 0xA6, CHR 0x85, CHR 0xEB, CHR 0x8B, CHR 0x88, CHR 0xEB, CHR 0x8B, CHR 0xA4] @ ''. ('' @ [CHR 0xEC, CHR 0xA0, CHR 0x9C, CHR 0xEC, CHR 0xB6, CHR 0x9C] @ '': ''"

definition msg_answer_sep :: string where
  "msg_answer_sep = '', '' @ [CHR 0xEC, CHR 0xA0, CHR 0x95, CHR 0xEB, CHR 0x8B, CHR 0xB5] @ '': ''"

definition msg_col_names :: string where
  "msg_col_names = [CHR 0xEC, CHR 0xBB, CHR 0xAC, CHR 0xEB, CHR 0x9F, CHR 0xBC, CHR 0xEB, CHR 0xAA, CHR 0x85, CHR 0xEC, CHR 0x9D, CHR 0xB4] @ '' '' @ [CHR 0xEB, CHR 0x8B, CHR 0xA4, CHR 0xEB, CHR 0xA6, CHR 0x85, CHR 0xEB, CHR 0x8B, CHR 0x88, CHR 0xEB, CHR 0x8B, CHR 0xA4] @ ''.''"

definition msg_missing :: string where
  "msg_missing = '' '' @ [CHR 0xEB, CHR 0x88, CHR 0x84, CHR 0xEB, CHR 0x9D, CHR 0xBD] @ '': ''"

definition msg_extra :: string where
  "msg_extra = '' '' @ [CHR 0xEC, CHR 0xB6, CHR 0x94, CHR 0xEA, CHR 0xB0, CHR 0x80] @ '': ''"

definition msg_correct :: string where
  "msg_correct = [CHR 0xEC, CHR 0xA0, CHR 0x95, CHR 0xEB, CHR 0x8B, CHR 0xB5, CHR 0xEC, CHR 0x9E, CHR 0x85, CHR 0xEB, CHR 0x8B, CHR 0x88, CHR 0xEB, CHR 0x8B, CHR 0xA4] @ ''! '' @ [CHR 0xF0, CHR 0x9F, CHR 0x8E, CHR 0x89]"

definition msg_values_differ :: string where
  "msg_values_differ = [CHR 0xEA, CHR 0xB2, CHR 0xB0, CHR 0xEA, CHR 0xB3, CHR 0xBC] @ '' '' @ [CHR 0xEA, CHR 0xB0, CHR 0x92, CHR 0xEC, CHR 0x9D, CHR 0xB4] @ '' '' @ [CHR 0xEB, CHR 0x8B, CHR 0xA4, CHR 0xEB, CHR 0xA6, CHR 0x85, CHR 0xEB, CHR 0x8B, CHR 0x88, CHR 0xEB, CHR 0x8B, CHR 0xA4] @ ''.''"

definition msg_compare_error :: string where
  "msg_compare_error = [CHR 0xEB, CHR 0xB9, CHR 0x84, CHR 0xEA, CHR 0xB5, CHR 0x90] @ '' '' @ [CHR 0xEC, CHR 0x98, CHR 0xA4, CHR 0xEB, CHR 0xA5, CHR 0x98] @ '': ''"

definition msg_no_result :: string where
  "msg_no_result = [CHR 0xEA, CHR 0xB2, CHR 0xB0, CHR 0xEA, CHR 0xB3, CHR 0xBC, CHR 0xEA, CHR 0xB0, CHR 0x80] @ '' '' @ [CHR 0xEC, CHR 0x97, CHR 0x86, CHR 0xEC, CHR 0x8A, CHR 0xB5, CHR 0xEB, CHR 0x8B, CHR 0x88, CHR 0xEB, CHR 0x8B, CHR 0xA4] @ ''.''"

definition msg_sql_error :: string where
  "msg_sql_error = ''SQL '' @ [CHR 0xEC, CHR 0x8B, CHR 0xA4, CHR 0xED, CHR 0x96, CHR 0x89] @ '' '' @ [CHR 0xEC, CHR 0x98, CHR 0xA4, CHR 0xEB, CHR 0xA5, CHR 0x98] @ '': ''"

section \<open>The tabular result (a pandas DataFrame)\<close>

text \<open>
  A query result is an ordered list of column labels and an ordered list of rows; a row
  holds one cell per column, in column order. A cell is a tagged scalar (floating-point
  cells are not modelled). A DataFrame is rectangular: every row is as long as the column
  list (\<open>wf_df\<close>); a cell read past the end of a row is null.
\<close>

datatype val = VNull | VBool bool | VInt int | VStr string

record dataframe =
  columns :: "string list"
  rows :: "val list list"

definition wf_df :: "dataframe \<Rightarrow> bool" where
  "wf_df df = list_all (\<lambda>r. length r = length (columns df)) (rows df)"

definition cell :: "val list \<Rightarrow> nat \<Rightarrow> val" where
  "cell r i = (if i < length r then r ! i else VNull)"

text \<open>The positions of a label among the columns (more than one when the label repeats).\<close>

definition label_positions :: "string list \<Rightarrow> string \<Rightarrow> nat list" where
  "label_positions cols l = filter (\<lambda>i. cols ! i = l) [0..<length cols]"

subsection \<open>\<^verbatim>\<open>DataFrame.sort_values(by=...)\<close>\<close>

text \<open>
  pandas sorts the rows by the \<^verbatim>\<open>by\<close> columns, lexicographically, ascending, nulls last;
  rows with equal keys keep their order. It raises \<^verbatim>\<open>ValueError\<close> when a \<^verbatim>\<open>by\<close> label
  names several columns and \<^verbatim>\<open>KeyError\<close> when it names none. Comparing values of
  different Python types raises \<^verbatim>\<open>TypeError\<close>: the model raises it for every \<^verbatim>\<open>by\<close>
  column that holds non-null cells of two different kinds (a column of an SQL result
  holds one kind). The comparator sorts by all the columns, so rows with equal keys are
  equal rows and the order pandas leaves them in cannot be seen.
\<close>

fun type_name :: "val \<Rightarrow> string" where
  "type_name VNull = ''NoneType''"
| "type_name (VBool _) = ''bool''"
| "type_name (VInt _) = ''int''"
| "type_name (VStr _) = ''str''"

fun val_less :: "val \<Rightarrow> val \<Rightarrow> bool" where
  "val_less VNull _ = False"
| "val_less _ VNull = True"
| "val_less (VBool a) (VBool b) = (a < b)"
| "val_less (VInt a) (VInt b) = (a < b)"
| "val_less (VStr a) (VStr b) = (a < b)"
| "val_less _ _ = False"

fun key_less :: "val list \<Rightarrow> val list \<Rightarrow> bool" where
  "key_less (x # xs) (y # ys) = (val_less x y \<or> (x = y \<and> key_less xs ys))"
| "key_less _ _ = False"

fun insort_row :: "(val list \<Rightarrow> val list) \<Rightarrow> val list \<Rightarrow> val list list \<Rightarrow> val list list" where
  "insort_row k r [] = [r]"
| "insort_row k r (s # ss) =
     (if key_less (k s) (k r) then s # insort_row k r ss else r # s # ss)"

definition sort_rows :: "(val list \<Rightarrow> val list) \<Rightarrow> val list list \<Rightarrow> val list list" where
  "sort_rows k rs = foldr (insort_row k) rs []"

text \<open>The first clash of kinds among the non-null cells of a column, if there is one.\<close>

fun type_clash :: "val list \<Rightarrow> (val \<times> val) option" where
  "type_clash [] = None"
| "type_clash (v # vs) =
     (case filter (\<lambda>w. type_name w \<noteq> type_name v) vs of
        [] \<Rightarrow> type_clash vs
      | w # _ \<Rightarrow> Some (v, w))"

fun check_labels :: "string list \<Rightarrow> string list \<Rightarrow> exn + nat list" where
  "check_labels cols [] = Inr []"
| "check_labels cols (l # ls) =
     (case label_positions cols l of
        [] \<Rightarrow> Inl (KeyError l)
      | [i] \<Rightarrow> (case check_labels cols ls of Inl e \<Rightarrow> Inl e | Inr is \<Rightarrow> Inr (i # is))
      | _ \<Rightarrow> Inl (ValueError (''The column label '' @ [CHR 0x27] @ l @ [CHR 0x27] @ '' is not unique.'')))"

fun check_types :: "val list list \<Rightarrow> nat list \<Rightarrow> exn + unit" where
  "check_types rs [] = Inr ()"
| "check_types rs (i # is) =
     (case type_clash (filter (\<lambda>v. v \<noteq> VNull) (map (\<lambda>r. cell r i) rs)) of
        Some (v, w) \<Rightarrow>
          Inl (TypeError ([CHR 0x27] @ ''<'' @ [CHR 0x27] @ '' not supported between instances of ''
                 @ [CHR 0x27] @ type_name w @ [CHR 0x27] @ '' and ''
                 @ [CHR 0x27] @ type_name v @ [CHR 0x27]))
      | None \<Rightarrow> check_types rs is)"

definition sort_values :: "dataframe \<Rightarrow> string list \<Rightarrow> exn + dataframe" where
  "sort_values df by =
     (case check_labels (columns df) by of
        Inl e \<Rightarrow> Inl e
      | Inr is \<Rightarrow>
          (case check_types (rows df) is of
             Inl e \<Rightarrow> Inl e
           | Inr _ \<Rightarrow> Inr (df\<lparr>rows := sort_rows (\<lambda>r. map (cell r) is) (rows df)\<rparr>)))"

subsection \<open>Relabelling, column selection and \<^verbatim>\<open>DataFrame.equals\<close>\<close>

text \<open>
  \<^verbatim>\<open>df[labels]\<close> takes, for each label in turn, every column carrying that label
  (\<^verbatim>\<open>KeyError\<close> when there is none). \<^verbatim>\<open>reset_index(drop=True)\<close> renumbers the rows
  from 0, which a list of rows does by itself. \<^verbatim>\<open>a.equals(b)\<close> holds when the two
  frames have the same labels in the same order and the same cells, nulls in the same
  place counting as equal.
\<close>

definition getitem_cols :: "dataframe \<Rightarrow> string list \<Rightarrow> exn + dataframe" where
  "getitem_cols df labels =
     (case filter (\<lambda>l. label_positions (columns df) l = []) labels of
        l # _ \<Rightarrow> Inl (KeyError l)
      | [] \<Rightarrow>
          (let is = concat (map (label_positions (columns df)) labels)
           in Inr \<lparr>columns = map (\<lambda>i. columns df ! i) is,
                   rows = map (\<lambda>r. map (cell r) is) (rows df)\<rparr>))"

definition equals :: "dataframe \<Rightarrow> dataframe \<Rightarrow> bool" where
  "equals a b = (columns a = columns b \<and> rows a = rows b)"

section \<open>The result comparator\<close>

text \<open>
  Python writes a set of strings as \<^verbatim>\<open>{'a', 'b'}\<close>; the order of the elements follows
  the hash seed of the process. The model writes them in order of first occurrence.
\<close>

definition repr_str :: "string \<Rightarrow> string" where
  "repr_str s = [CHR 0x27] @ s @ [CHR 0x27]"

fun join_comma :: "string list \<Rightarrow> string" where
  "join_comma [] = []"
| "join_comma [s] = s"
| "join_comma (s # t # ss) = s @ '', '' @ join_comma (t # ss)"

definition repr_set :: "string list \<Rightarrow> string" where
  "repr_set xs = ''{'' @ join_comma (map repr_str (remdups xs)) @ ''}''"

text \<open>The body of the \<^verbatim>\<open>try\<close> block of \<^verbatim>\<open>compare_results\<close> (lines 60-72).\<close>

definition compare_values :: "dataframe \<Rightarrow> dataframe \<Rightarrow> exn + (bool \<times> string)" where
  "compare_values user_df answer_df =
     (case sort_values user_df (columns user_df) of
        Inl e \<Rightarrow> Inl e
      | Inr user_sorted \<Rightarrow>
     (case sort_values answer_df (columns answer_df) of
        Inl e \<Rightarrow> Inl e
      | Inr answer_sorted \<Rightarrow>
     (let user_l = user_sorted\<lparr>columns := map lower (columns user_sorted)\<rparr>;
          answer_l = answer_sorted\<lparr>columns := map lower (columns answer_sorted)\<rparr>
      in
     (case getitem_cols user_l (sort (columns user_l)) of
        Inl e \<Rightarrow> Inl e
      | Inr user_n \<Rightarrow>
     (case getitem_cols answer_l (sort (columns answer_l)) of
        Inl e \<Rightarrow> Inl e
      | Inr answer_n \<Rightarrow>
          (if equals user_n answer_n then Inr (True, msg_correct)
           else Inr (False, msg_values_differ)))))))"

definition compare_results :: "dataframe \<Rightarrow> dataframe \<Rightarrow> exn + (bool \<times> string)" where
  "compare_results user_df answer_df =
     (if length (columns user_df) \<noteq> length (columns answer_df) then
        Inr (False, msg_col_count @ str_nat (length (columns user_df)) @ msg_answer_sep
                      @ str_nat (length (columns answer_df)) @ '')'')
      else if length (rows user_df) \<noteq> length (rows answer_df) then
        Inr (False, msg_row_count @ str_nat (length (rows user_df)) @ msg_answer_sep
                      @ str_nat (length (rows answer_df)) @ '')'')
      else
        (let user_cols = map lower (columns user_df);
             answer_cols = map lower (columns answer_df)
         in if set user_cols \<noteq> set answer_cols then
              (let missing = filter (\<lambda>c. c \<notin> set user_cols) answer_cols;
                   extra = filter (\<lambda>c. c \<notin> set answer_cols) user_cols
               in Inr (False, msg_col_names
                         @ (if missing \<noteq> [] then msg_missing @ repr_set missing else [])
                         @ (if extra \<noteq> [] then msg_extra @ repr_set extra else [])))
            else
              (case compare_values user_df answer_df of
                 Inl e \<Rightarrow> Inr (False, msg_compare_error @ str_exn e)
               | Inr r \<Rightarrow> Inr r)))"

section \<open>The grading orchestrator and its collaborators\<close>

text \<open>
  The problem document of the day is JSON; \<^verbatim>\<open>json.loads\<close> gives Python values
  (a JSON object with the keys of the parsed \<^verbatim>\<open>dict\<close>, each once; numbers with a
  fraction are not modelled).
\<close>

datatype json =
    JNull
  | JBool bool
  | JNum int
  | JStr string
  | JArr "json list"
  | JObj "(string \<times> json) list"

text \<open>Python's truth value of a parsed JSON value (\<^verbatim>\<open>if x:\<close>).\<close>

fun truthy :: "json \<Rightarrow> bool" where
  "truthy JNull = False"
| "truthy (JBool b) = b"
| "truthy (JNum n) = (n \<noteq> 0)"
| "truthy (JStr s) = (s \<noteq> [])"
| "truthy (JArr xs) = (xs \<noteq> [])"
| "truthy (JObj kvs) = (kvs \<noteq> [])"

fun json_type_name :: "json \<Rightarrow> string" where
  "json_type_name JNull = ''NoneType''"
| "json_type_name (JBool _) = ''bool''"
| "json_type_name (JNum _) = ''int''"
| "json_type_name (JStr _) = ''str''"
| "json_type_name (JArr _) = ''list''"
| "json_type_name (JObj _) = ''dict''"

text \<open>\<^verbatim>\<open>d.get(k)\<close>: the value, or \<^verbatim>\<open>None\<close> when the key is absent.\<close>

definition dict_get :: "(string \<times> json) list \<Rightarrow> string \<Rightarrow> json" where
  "dict_get d k = (case map_of d k of None \<Rightarrow> JNull | Some v \<Rightarrow> v)"

text \<open>
  What the file system holds at a path: nothing (\<^verbatim>\<open>path.exists()\<close> is false), a file
  that \<^verbatim>\<open>read_text\<close> or \<^verbatim>\<open>json.loads\<close> raises on, or a document.
\<close>

datatype file_content = Missing | Unreadable | Parsed json

text \<open>The row that \<^verbatim>\<open>save_submission\<close> inserts (lines 173-180).\<close>

record submission =
  session_date :: string
  sub_problem_id :: string
  sql_text :: string
  sub_is_correct :: bool
  sub_feedback :: string
  submitted_at :: string

text \<open>
  \<^verbatim>\<open>SubmitResponse\<close> (the Verdict). Its class is declared in
  \<^verbatim>\<open>backend/schemas/submission.py\<close>; the fields are those the constructor calls of
  lines 119-124 and 138-143 pass.
\<close>

record SubmitResponse =
  is_correct :: bool
  feedback :: string
  execution_time_ms :: real
  diff :: "string option"

text \<open>
  The collaborators of one grading call:
  \<^item> \<open>today\<close>: \<^verbatim>\<open>date.today().isoformat()\<close>;
  \<^item> \<open>problem_files\<close>: the file system under \<^verbatim>\<open>problems/\<close>;
  \<^item> \<open>fetch_df\<close>: \<^verbatim>\<open>with postgres_connection() as pg: pg.fetch_df(q)\<close>, the whole
    block: the result frame, or the exception of the connection or of the query;
  \<^item> \<open>duck_insert\<close>: \<^verbatim>\<open>with duckdb_connection() as duck: duck.insert(table, row)\<close>;
  \<^item> \<open>clock\<close>: the successive readings of \<^verbatim>\<open>time.time()\<close>, in seconds;
  \<^item> \<open>now\<close>: \<^verbatim>\<open>datetime.now()\<close>.
\<close>

record env =
  today :: string
  problem_files :: "string \<Rightarrow> file_content"
  fetch_df :: "string \<Rightarrow> exn + dataframe"
  duck_insert :: "string \<Rightarrow> submission \<Rightarrow> exn + unit"
  clock :: "nat \<Rightarrow> real"
  now :: string

text \<open>The calls a grading makes to its collaborators and to the comparator, in order.\<close>

datatype event =
    Fetched string
  | Compared
  | Insert string submission

subsection \<open>\<^verbatim>\<open>load_problem_with_answer\<close>\<close>

text \<open>
  The loop of lines 27-29. An element that is not a \<^verbatim>\<open>dict\<close> has no \<^verbatim>\<open>get\<close>: the
  \<^verbatim>\<open>AttributeError\<close> is caught at line 31 and the result is \<^verbatim>\<open>None\<close>.
\<close>

fun find_problem :: "json list \<Rightarrow> string \<Rightarrow> (string \<times> json) list option" where
  "find_problem [] problem_id = None"
| "find_problem (JObj p # ps) problem_id =
     (if dict_get p ''problem_id'' = JStr problem_id then Some p
      else find_problem ps problem_id)"
| "find_problem (_ # ps) problem_id = None"

definition load_problem_with_answer ::
    "env \<Rightarrow> string \<Rightarrow> string \<Rightarrow> (string \<times> json) list option" where
  "load_problem_with_answer e problem_id data_type =
     (let path = (if data_type = ''stream''
                  then ''problems/stream_daily/'' @ today e @ ''.json''
                  else ''problems/daily/'' @ today e @ ''.json'')
      in case problem_files e path of
           Missing \<Rightarrow> None
         | Unreadable \<Rightarrow> None
         | Parsed (JArr problems) \<Rightarrow> find_problem problems problem_id
         | Parsed _ \<Rightarrow> None)"

subsection \<open>\<^verbatim>\<open>save_submission\<close>\<close>

text \<open>The whole body is inside \<^verbatim>\<open>try: ... except Exception: pass\<close>.\<close>

definition save_submission ::
    "env \<Rightarrow> string \<Rightarrow> string \<Rightarrow> string \<Rightarrow> string \<Rightarrow> bool \<Rightarrow> string \<Rightarrow> event list \<times> (exn + unit)" where
  "save_submission e sdate problem_id data_type sql ok fb =
     (let table = data_type @ ''_submissions'';
          row = \<lparr>session_date = sdate, sub_problem_id = problem_id, sql_text = sql,
                 sub_is_correct = ok, sub_feedback = fb, submitted_at = now e\<rparr>
      in ([Insert table row],
          (case duck_insert e table row of Inl _ \<Rightarrow> Inr () | Inr _ \<Rightarrow> Inr ())))"

subsection \<open>\<^verbatim>\<open>grade_submission\<close>\<close>

text \<open>Line 90: \<^verbatim>\<open>problem.get("answer_sql") if problem else None\<close>.\<close>

definition answer_sql_of :: "env \<Rightarrow> string \<Rightarrow> string \<Rightarrow> json" where
  "answer_sql_of e problem_id data_type =
     (case load_problem_with_answer e problem_id data_type of
        None \<Rightarrow> JNull
      | Some p \<Rightarrow> if truthy (JObj p) then dict_get p ''answer_sql'' else JNull)"

text \<open>\<^verbatim>\<open>answer_sql.strip().rstrip(";")\<close> on a parsed JSON value: only a \<^verbatim>\<open>str\<close> has
  \<^verbatim>\<open>strip\<close>.\<close>

definition answer_query :: "json \<Rightarrow> exn + string" where
  "answer_query j =
     (case j of
        JStr s \<Rightarrow> Inr (rstrip_semicolon (strip s))
      | _ \<Rightarrow> Inl (AttributeError ([CHR 0x27] @ json_type_name j @ [CHR 0x27]
                    @ '' object has no attribute '' @ [CHR 0x27] @ ''strip'' @ [CHR 0x27])))"

text \<open>Lines 89-105: the part of the \<^verbatim>\<open>try\<close> block that decides the outcome.\<close>

definition grade_body ::
    "env \<Rightarrow> string \<Rightarrow> string \<Rightarrow> string \<Rightarrow> event list \<times> (exn + (bool \<times> string))" where
  "grade_body e problem_id sql data_type =
     (let answer_sql = answer_sql_of e problem_id data_type;
          q = rstrip_semicolon (strip sql)
      in case fetch_df e q of
           Inl x \<Rightarrow> ([Fetched q], Inl x)
         | Inr user_df \<Rightarrow>
             if truthy answer_sql then
               (case answer_query answer_sql of
                  Inl x \<Rightarrow> ([Fetched q], Inl x)
                | Inr aq \<Rightarrow>
                    (case fetch_df e aq of
                       Inl x \<Rightarrow> ([Fetched q, Fetched aq], Inl x)
                     | Inr answer_df \<Rightarrow>
                         ([Fetched q, Fetched aq, Compared],
                          compare_results user_df answer_df)))
             else
               ([Fetched q],
                Inr (0 < length (rows user_df),
                     if 0 < length (rows user_df) then msg_correct else msg_no_result)))"

text \<open>The \<^verbatim>\<open>except Exception as e\<close> handler, lines 126-143.\<close>

definition grade_handler ::
    "env \<Rightarrow> string \<Rightarrow> string \<Rightarrow> string \<Rightarrow> exn \<Rightarrow> event list \<times> (exn + SubmitResponse)" where
  "grade_handler e problem_id sql data_type x =
     (let fb = msg_sql_error @ str_exn x
      in case save_submission e (today e) problem_id data_type sql False fb of
           (tr, Inl y) \<Rightarrow> (tr, Inl y)
         | (tr, Inr _) \<Rightarrow>
             (tr, Inr \<lparr>is_correct = False, feedback = fb, execution_time_ms = 0,
                       diff = Some (str_exn x)\<rparr>))"

definition grade_submission ::
    "env \<Rightarrow> string \<Rightarrow> string \<Rightarrow> string \<Rightarrow> event list \<times> (exn + SubmitResponse)" where
  "grade_submission e problem_id sql data_type =
     (let start = clock e 0
      in case grade_body e problem_id sql data_type of
           (tr, Inl x) \<Rightarrow>
             (case grade_handler e problem_id sql data_type x of
                (tr', r) \<Rightarrow> (tr @ tr', r))
         | (tr, Inr (ok, fb)) \<Rightarrow>
             (case save_submission e (today e) problem_id data_type sql ok fb of
                (tr', Inl x) \<Rightarrow>
                  (case grade_handler e problem_id sql data_type x of
                     (tr'', r) \<Rightarrow> (tr @ tr' @ tr'', r))
              | (tr', Inr _) \<Rightarrow>
                  (tr @ tr',
                   Inr \<lparr>is_correct = ok, feedback = fb,
                         execution_time_ms = (clock e 1 - start) * 1000,
                         diff = None\<rparr>)))"

section \<open>Concrete frames\<close>

definition scenario1_user :: dataframe where
  "scenario1_user = \<lparr>columns = [''id'', ''name''],
      rows = [[VInt 1, VStr ''a''], [VInt 2, VStr ''b'']]\<rparr>"
definition scenario1_reference :: dataframe where
  "scenario1_reference = \<lparr>columns = [''ID'', ''NAME''],
      rows = [[VInt 2, VStr ''b''], [VInt 1, VStr ''a'']]\<rparr>"
definition swapped_user :: dataframe where
  "swapped_user = \<lparr>columns = [''a'', ''b''], rows = [[VInt 1, VInt 2], [VInt 2, VInt 1]]\<rparr>"
definition swapped_reference :: dataframe where
  "swapped_reference = \<lparr>columns = [''b'', ''a''], rows = [[VInt 2, VInt 1], [VInt 1, VInt 2]]\<rparr>"
definition narrow_user :: dataframe where
  "narrow_user = \<lparr>columns = [''id''], rows = [[VInt 7], [VInt 8], [VInt 9]]\<rparr>"
definition wide_reference :: dataframe where
  "wide_reference = \<lparr>columns = [''id'', ''name''],
      rows = [[VInt 7, VNull], [VInt 8, VNull], [VInt 9, VNull], [VInt 5, VNull]]\<rparr>"
definition mixed_user :: dataframe where
  "mixed_user = \<lparr>columns = [''x''], rows = [[VInt 1], [VStr ''a'']]\<rparr>"
definition three_rows :: dataframe where
  "three_rows = \<lparr>columns = [''id''], rows = [[VInt 1], [VInt 2], [VInt 3]]\<rparr>"
definition two_rows :: dataframe where
  "two_rows = \<lparr>columns = [''id''], rows = [[VInt 1], [VInt 2]]\<rparr>"

definition scenario3_user :: dataframe where
  "scenario3_user = \<lparr>columns = [''id'', ''amt''], rows = [[VInt 1, VInt 10]]\<rparr>"

definition scenario3_reference :: dataframe where
  "scenario3_reference = \<lparr>columns = [''id'', ''amount''], rows = [[VInt 1, VInt 10]]\<rparr>"

section \<open>Concrete collaborators\<close>

text \<open>
  An executor that answers one query and reports every other text as a syntax error,
  echoing the text it was given (as a database driver does in its error message); a
  day without a problem file; a store whose insert fails; and a day whose problem
  \<^verbatim>\<open>p1\<close> carries a reference query that does not execute.
\<close>

definition one_row :: dataframe where
  "one_row = \<lparr>columns = [''cnt''], rows = [[VInt 5]]\<rparr>"

definition echo_fetch :: "string \<Rightarrow> exn + dataframe" where
  "echo_fetch q =
     (if q = ''SELECT 5 AS cnt'' then Inr one_row
      else Inl (OtherError (''syntax error in: '' @ q)))"

definition base_env :: env where
  "base_env = \<lparr>today = ''2025-01-01'', problem_files = (\<lambda>_. Missing), fetch_df = echo_fetch,
      duck_insert = (\<lambda>_ _. Inr ()), clock = (\<lambda>k. real k), now = ''2025-01-01 09:00:00''\<rparr>"

definition broken_store_env :: env where
  "broken_store_env = base_env\<lparr>duck_insert := (\<lambda>_ _. Inl (OtherError ''database is locked''))\<rparr>"


section \<open>Properties of the comparator\<close>

lemma compare_values_flag_sym:
  "(case compare_values A B of Inl _ \<Rightarrow> False | Inr r \<Rightarrow> fst r) =
   (case compare_values B A of Inl _ \<Rightarrow> False | Inr r \<Rightarrow> fst r)"
  unfolding compare_values_def Let_def
  by (auto simp: equals_def split: sum.splits)

text \<open>
  Claim C8. The equal flag does not depend on which frame is the submission and which
  the reference; the two reasons may differ.
\<close>

theorem compare_results_equal_symmetric:
  "\<exists>eq r1 r2. compare_results A B = Inr (eq, r1) \<and> compare_results B A = Inr (eq, r2)"
  using compare_values_flag_sym[of A B]
  unfolding compare_results_def Let_def
  by (auto split: sum.splits)

theorem compare_results_equal_symmetric_witness:
  "map_sum id fst (compare_results scenario3_user scenario3_reference) = Inr False
   \<and> map_sum id fst (compare_results scenario3_reference scenario3_user) = Inr False
   \<and> compare_results scenario3_user scenario3_reference
       \<noteq> compare_results scenario3_reference scenario3_user"
proof -
  have a: "map_sum id fst (compare_results scenario3_user scenario3_reference) = Inr False"
    by code_simp
  have b: "compare_results scenario3_user scenario3_reference
       \<noteq> compare_results scenario3_reference scenario3_user"
    by code_simp
  from compare_results_equal_symmetric[of scenario3_user scenario3_reference] a b
  show ?thesis by auto
qed

text \<open>
  Claim C9. For every pair of frames \<^verbatim>\<open>compare_results\<close> returns a reason that is not
  the empty string, and whenever the equal flag is true the reason is the success message.
\<close>

theorem compare_results_reason_populated:
  "\<exists>eq reason. compare_results A B = Inr (eq, reason) \<and> reason \<noteq> []
      \<and> (eq \<longrightarrow> reason = msg_correct)"
  unfolding compare_results_def compare_values_def Let_def
  by (auto simp: msg_col_count_def msg_row_count_def msg_col_names_def msg_compare_error_def
        msg_correct_def msg_values_differ_def split: sum.splits)

theorem compare_results_reason_populated_witness:
  "compare_results scenario1_user scenario1_reference = Inr (True, msg_correct) \<and> msg_correct \<noteq> []"
proof -
  have e: "compare_results scenario1_user scenario1_reference = Inr (True, msg_correct)"
    by code_simp
  from compare_results_reason_populated[of scenario1_user scenario1_reference] e
  show ?thesis by auto
qed

text \<open>
  Claim C5, as amended. When the row counts differ the equal flag is false. The column
  counts are compared first (line 38): when they agree, the reason is the row-count
  message of line 43, which states both row counts.
\<close>

theorem compare_results_row_count:
  assumes "length (rows A) \<noteq> length (rows B)"
  shows "\<exists>reason. compare_results A B = Inr (False, reason)
           \<and> (length (columns A) = length (columns B) \<longrightarrow>
                reason = msg_row_count @ str_nat (length (rows A)) @ msg_answer_sep
                           @ str_nat (length (rows B)) @ '')''
                \<and> sublist (str_nat (length (rows A))) reason
                \<and> sublist (str_nat (length (rows B))) reason)"
proof (cases "length (columns A) = length (columns B)")
  case True
  have "sublist (str_nat (length (rows B)))
          ((msg_row_count @ str_nat (length (rows A)) @ msg_answer_sep)
             @ str_nat (length (rows B)) @ '')'')"
    by (rule sublist_appendI)
  with True assms show ?thesis
    by (simp add: compare_results_def)
next
  case False
  then show ?thesis by (simp add: compare_results_def)
qed

theorem compare_results_row_count_witness:
  "length (rows three_rows) \<noteq> length (rows two_rows)
   \<and> compare_results three_rows two_rows =
       Inr (False, msg_row_count @ ''3'' @ msg_answer_sep @ ''2'' @ '')'')
   \<and> sublist ''3'' (msg_row_count @ ''3'' @ msg_answer_sep @ ''2'' @ '')'')
   \<and> sublist ''2'' (msg_row_count @ ''3'' @ msg_answer_sep @ ''2'' @ '')'')"
proof -
  have h: "length (rows three_rows) \<noteq> length (rows two_rows)"
    by (simp add: three_rows_def two_rows_def)
  have c: "length (columns three_rows) = length (columns two_rows)"
    by (simp add: three_rows_def two_rows_def)
  have n: "str_nat (length (rows three_rows)) = ''3''" "str_nat (length (rows two_rows)) = ''2''"
    by code_simp+
  from compare_results_row_count[OF h] c n h show ?thesis by simp
qed

text \<open>
  Claim C5 as stated fails: with 1 against 2 columns and 3 against 4 rows, the reason is
  the column-count message; it names 1 and 2 and neither row count.
\<close>

theorem compare_results_row_count_counterexample:
  "length (rows narrow_user) = 3 \<and> length (rows wide_reference) = 4
   \<and> compare_results narrow_user wide_reference =
       Inr (False, msg_col_count @ ''1'' @ msg_answer_sep @ ''2'' @ '')'')
   \<and> \<not> sublist ''3'' (msg_col_count @ ''1'' @ msg_answer_sep @ ''2'' @ '')'')
   \<and> \<not> sublist ''4'' (msg_col_count @ ''1'' @ msg_answer_sep @ ''2'' @ '')'')"
  by code_simp

text \<open>
  Claim C6. \<^verbatim>\<open>compare_results\<close> returns an outcome for every pair of frames, and
  an exception \<open>e\<close> raised inside the \<^verbatim>\<open>try\<close> block (a sort that fails on mixed
  types, for one) becomes the outcome: equal is false and the reason is the literal of
  line 74 followed by \<^verbatim>\<open>str(e)\<close>.
\<close>

theorem compare_results_fails_closed:
  "(\<exists>eq reason. compare_results A B = Inr (eq, reason))
   \<and> (length (columns A) = length (columns B) \<and> length (rows A) = length (rows B)
        \<and> set (map lower (columns A)) = set (map lower (columns B))
        \<and> compare_values A B = Inl e
      \<longrightarrow> compare_results A B = Inr (False, msg_compare_error @ str_exn e))"
  unfolding compare_results_def Let_def
  by (auto split: sum.splits)

theorem compare_results_fails_closed_witness:
  "compare_values mixed_user mixed_user =
     Inl (TypeError ([CHR 0x27] @ ''<'' @ [CHR 0x27] @ '' not supported between instances of ''
            @ [CHR 0x27] @ ''str'' @ [CHR 0x27] @ '' and '' @ [CHR 0x27] @ ''int'' @ [CHR 0x27]))
   \<and> compare_results mixed_user mixed_user =
       Inr (False, msg_compare_error @ [CHR 0x27] @ ''<'' @ [CHR 0x27]
              @ '' not supported between instances of ''
              @ [CHR 0x27] @ ''str'' @ [CHR 0x27] @ '' and '' @ [CHR 0x27] @ ''int'' @ [CHR 0x27])"
proof -
  have v: "compare_values mixed_user mixed_user =
     Inl (TypeError ([CHR 0x27] @ ''<'' @ [CHR 0x27] @ '' not supported between instances of ''
            @ [CHR 0x27] @ ''str'' @ [CHR 0x27] @ '' and '' @ [CHR 0x27] @ ''int'' @ [CHR 0x27]))"
    by code_simp
  from compare_results_fails_closed[of mixed_user mixed_user] v show ?thesis
    by simp
qed

text \<open>
  Claim C1, at an input where the code departs from it. The reference frame is the
  submitted frame with its two columns written in the other order: the same column set,
  the same rows. Each frame is sorted by its own column order before the columns are
  aligned (lines 60-61, then 66-67), so the rows end up in different orders and the
  comparison reports differing values.
\<close>

theorem compare_results_column_order_failure:
  "wf_df swapped_user \<and> wf_df swapped_reference
   \<and> distinct (map lower (columns swapped_user))
   \<and> columns swapped_reference = rev (columns swapped_user)
   \<and> rows swapped_reference = map rev (rows swapped_user)
   \<and> compare_results swapped_user swapped_reference = Inr (False, msg_values_differ)"
  by code_simp

section \<open>Properties of the orchestrator\<close>

lemma save_submission_absorbs:
  "save_submission e sdate problem_id data_type sql ok fb =
     ([Insert (data_type @ ''_submissions'')
         \<lparr>session_date = sdate, sub_problem_id = problem_id, sql_text = sql,
            sub_is_correct = ok, sub_feedback = fb, submitted_at = now e\<rparr>], Inr ())"
  by (simp add: save_submission_def Let_def split: sum.splits)

lemma grade_handler_returns:
  "grade_handler e problem_id sql data_type x =
     ([Insert (data_type @ ''_submissions'')
         \<lparr>session_date = today e, sub_problem_id = problem_id, sql_text = sql,
            sub_is_correct = False, sub_feedback = msg_sql_error @ str_exn x,
            submitted_at = now e\<rparr>],
      Inr \<lparr>is_correct = False, feedback = msg_sql_error @ str_exn x,
            execution_time_ms = 0, diff = Some (str_exn x)\<rparr>)"
  by (simp add: grade_handler_def Let_def save_submission_absorbs)

lemma grade_submission_unfold:
  "grade_submission e problem_id sql data_type =
     (case grade_body e problem_id sql data_type of
        (tr, Inl x) \<Rightarrow>
          (tr @ fst (grade_handler e problem_id sql data_type x),
           Inr \<lparr>is_correct = False, feedback = msg_sql_error @ str_exn x,
                 execution_time_ms = 0, diff = Some (str_exn x)\<rparr>)
      | (tr, Inr (ok, fb)) \<Rightarrow>
          (tr @ fst (save_submission e (today e) problem_id data_type sql ok fb),
           Inr \<lparr>is_correct = ok, feedback = fb,
                 execution_time_ms = (clock e 1 - clock e 0) * 1000, diff = None\<rparr>))"
  by (simp add: grade_submission_def Let_def save_submission_absorbs grade_handler_returns
        split: prod.splits sum.splits)

lemma grade_body_store_irrelevant:
  "grade_body (e\<lparr>duck_insert := ins\<rparr>) problem_id sql data_type =
   grade_body e problem_id sql data_type"
proof -
  have "answer_sql_of (e\<lparr>duck_insert := ins\<rparr>) problem_id data_type =
        answer_sql_of e problem_id data_type"
    by (simp add: answer_sql_of_def load_problem_with_answer_def)
  then show ?thesis
    by (simp add: grade_body_def Let_def cong: sum.case_cong if_cong)
qed

text \<open>
  Claim C7. \<^verbatim>\<open>grade_submission\<close> returns a Verdict for every input and every
  behaviour of its collaborators: no exception reaches the caller. The Verdict does not
  depend on the store: replacing the insert by any other one, a failing one included,
  leaves the returned value as it is.
\<close>

theorem grade_submission_never_raises:
  "(\<exists>tr v. grade_submission e problem_id sql data_type = (tr, Inr v))
   \<and> snd (grade_submission (e\<lparr>duck_insert := ins\<rparr>) problem_id sql data_type) =
       snd (grade_submission e problem_id sql data_type)"
  by (simp add: grade_submission_unfold grade_body_store_irrelevant
        split: prod.splits sum.splits)

theorem grade_submission_never_raises_witness:
  "snd (grade_submission broken_store_env ''p1'' ''SELECT 5 AS cnt;'' ''pa'') =
     Inr \<lparr>is_correct = True, feedback = msg_correct, execution_time_ms = 1000, diff = None\<rparr>
   \<and> snd (grade_submission base_env ''p1'' ''SELECT 5 AS cnt;'' ''pa'') =
     Inr \<lparr>is_correct = True, feedback = msg_correct, execution_time_ms = 1000, diff = None\<rparr>"
proof -
  have b: "snd (grade_submission base_env ''p1'' ''SELECT 5 AS cnt;'' ''pa'') =
     Inr \<lparr>is_correct = True, feedback = msg_correct, execution_time_ms = 1000, diff = None\<rparr>"
    by code_simp
  from grade_submission_never_raises
         [of base_env "''p1''" "''SELECT 5 AS cnt;''" "''pa''"
             "\<lambda>_ _. Inl (OtherError ''database is locked'')"]
       b
  show ?thesis by (simp add: broken_store_env_def)
qed

text \<open>
  Claim C4. When no reference SQL is found (line 90 yields nothing, or a value that
  is false in Python), the Verdict is correct exactly when the submitted query executed
  and returned at least one row; the comparator is not called.
\<close>

theorem grade_submission_fallback:
  assumes "\<not> truthy (answer_sql_of e problem_id data_type)"
  shows "\<exists>tr v. grade_submission e problem_id sql data_type = (tr, Inr v)
           \<and> is_correct v =
               (case fetch_df e (rstrip_semicolon (strip sql)) of
                  Inl _ \<Rightarrow> False
                | Inr user_df \<Rightarrow> 0 < length (rows user_df))
           \<and> Compared \<notin> set tr"
  using assms
  by (simp add: grade_submission_unfold grade_body_def Let_def save_submission_absorbs
        grade_handler_returns split: sum.splits)

theorem grade_submission_fallback_witness:
  "\<not> truthy (answer_sql_of base_env ''p1'' ''pa'')
   \<and> fetch_df base_env (rstrip_semicolon (strip ''SELECT 5 AS cnt;'')) = Inr one_row
   \<and> 0 < length (rows one_row)
   \<and> snd (grade_submission base_env ''p1'' ''SELECT 5 AS cnt;'' ''pa'') =
       Inr \<lparr>is_correct = True, feedback = msg_correct, execution_time_ms = 1000, diff = None\<rparr>"
proof -
  have h: "\<not> truthy (answer_sql_of base_env ''p1'' ''pa'')"
    by code_simp
  have f: "fetch_df base_env (rstrip_semicolon (strip ''SELECT 5 AS cnt;'')) = Inr one_row"
    by code_simp
  have n: "0 < length (rows one_row)"
    by (simp add: one_row_def)
  have v: "snd (grade_submission base_env ''p1'' ''SELECT 5 AS cnt;'' ''pa'') =
       Inr \<lparr>is_correct = True, feedback = msg_correct, execution_time_ms = 1000, diff = None\<rparr>"
    by code_simp
  from grade_submission_fallback[OF h, of "''SELECT 5 AS cnt;''"] h f n v
  show ?thesis by simp
qed

text \<open>
  Claim C3, as amended. When the submitted SQL fails to execute with the exception
  \<open>x\<close>, the Verdict has \<open>is_correct = False\<close>, its feedback is the literal of line
  127 followed by \<^verbatim>\<open>str(x)\<close>, its \<open>diff\<close> is \<^verbatim>\<open>str(x)\<close>; the reference SQL is not
  executed and the comparator is not called.
\<close>

theorem grade_submission_execution_error:
  assumes "fetch_df e (rstrip_semicolon (strip sql)) = Inl x"
  shows "\<exists>tr v. grade_submission e problem_id sql data_type = (tr, Inr v)
           \<and> is_correct v = False
           \<and> feedback v = msg_sql_error @ str_exn x
           \<and> diff v = Some (str_exn x)
           \<and> Compared \<notin> set tr
           \<and> filter (\<lambda>ev. case ev of Fetched _ \<Rightarrow> True | _ \<Rightarrow> False) tr
               = [Fetched (rstrip_semicolon (strip sql))]"
  using assms
  by (simp add: grade_submission_unfold grade_body_def Let_def grade_handler_returns)

theorem grade_submission_execution_error_witness:
  "fetch_df base_env (rstrip_semicolon (strip ''SELEC 5'')) =
     Inl (OtherError ''syntax error in: SELEC 5'')
   \<and> grade_submission base_env ''p1'' ''SELEC 5'' ''pa'' =
       ([Fetched ''SELEC 5'',
         Insert ''pa_submissions''
           \<lparr>session_date = ''2025-01-01'', sub_problem_id = ''p1'', sql_text = ''SELEC 5'',
              sub_is_correct = False,
              sub_feedback = msg_sql_error @ ''syntax error in: SELEC 5'',
              submitted_at = ''2025-01-01 09:00:00''\<rparr>],
        Inr \<lparr>is_correct = False, feedback = msg_sql_error @ ''syntax error in: SELEC 5'',
              execution_time_ms = 0, diff = Some ''syntax error in: SELEC 5''\<rparr>)"
proof -
  have f: "fetch_df base_env (rstrip_semicolon (strip ''SELEC 5'')) =
     Inl (OtherError ''syntax error in: SELEC 5'')"
    by code_simp
  have g: "grade_submission base_env ''p1'' ''SELEC 5'' ''pa'' =
       ([Fetched ''SELEC 5'',
         Insert ''pa_submissions''
           \<lparr>session_date = ''2025-01-01'', sub_problem_id = ''p1'', sql_text = ''SELEC 5'',
              sub_is_correct = False,
              sub_feedback = msg_sql_error @ ''syntax error in: SELEC 5'',
              submitted_at = ''2025-01-01 09:00:00''\<rparr>],
        Inr \<lparr>is_correct = False, feedback = msg_sql_error @ ''syntax error in: SELEC 5'',
              execution_time_ms = 0, diff = Some ''syntax error in: SELEC 5''\<rparr>)"
    by code_simp
  from grade_submission_execution_error[OF f, of "''p1''" "''pa''"] f g
  show ?thesis by simp
qed

text \<open>
  Claim C3 as stated fails: for the error text \<^verbatim>\<open>syntax error in: SELEC 5\<close> the
  feedback is not that text (it carries the prefix of line 127), and the reported time
  is the constant 0 of line 141 although the clock has advanced by a second.
\<close>

theorem grade_submission_execution_error_counterexample:
  "fetch_df base_env (rstrip_semicolon (strip ''SELEC 5'')) =
     Inl (OtherError ''syntax error in: SELEC 5'')
   \<and> snd (grade_submission base_env ''p1'' ''SELEC 5'' ''pa'') =
       Inr \<lparr>is_correct = False, feedback = msg_sql_error @ ''syntax error in: SELEC 5'',
             execution_time_ms = 0, diff = Some ''syntax error in: SELEC 5''\<rparr>
   \<and> msg_sql_error @ ''syntax error in: SELEC 5'' \<noteq> ''syntax error in: SELEC 5''
   \<and> (clock base_env 1 - clock base_env 0) * 1000 = 1000"
  by code_simp




subsection \<open>Trailing whitespace and semicolons\<close>


















end
